theory Spec2Isabelle
  imports Main "HOL-Library.Sublist" "HOL-Library.Char_ord" "HOL-Library.List_Lexorder"
begin

section \<open>Python primitives used by the analysis scripts\<close>

text \<open>
  Strings are \<open>char list\<close>; a Python text is represented by its UTF-8 bytes. The
  case conversions below act on the ASCII letters only and leave every other byte as
  it is.
\<close>

datatype py_error = ReadError | ValueError

text \<open>\<open>sub in s\<close> on strings.\<close>

fun str_in :: "string \<Rightarrow> string \<Rightarrow> bool" where
  "str_in sub [] = (sub = [])"
| "str_in sub (c # cs) = (prefix sub (c # cs) \<or> str_in sub cs)"

text \<open>
  \<open>s.count(sub)\<close>: the number of non-overlapping occurrences, scanning from the
  left. The second argument is the number of characters still covered by the last
  occurrence found.
\<close>

fun count_from :: "string \<Rightarrow> nat \<Rightarrow> string \<Rightarrow> int" where
  "count_from sub k [] = (if sub = [] then 1 else 0)"
| "count_from sub k (c # cs) =
     (if 0 < k then count_from sub (k - 1) cs
      else if prefix sub (c # cs) then 1 + count_from sub (length sub - 1) cs
      else count_from sub 0 cs)"

definition str_count :: "string \<Rightarrow> string \<Rightarrow> int" where
  "str_count s sub = count_from sub 0 s"

definition is_upper :: "char \<Rightarrow> bool" where
  "is_upper c = (65 \<le> (of_char c :: nat) \<and> (of_char c :: nat) \<le> 90)"

definition is_lower :: "char \<Rightarrow> bool" where
  "is_lower c = (97 \<le> (of_char c :: nat) \<and> (of_char c :: nat) \<le> 122)"

definition lower_char :: "char \<Rightarrow> char" where
  "lower_char c = (if is_upper c then char_of ((of_char c :: nat) + 32) else c)"

definition upper_char :: "char \<Rightarrow> char" where
  "upper_char c = (if is_lower c then char_of ((of_char c :: nat) - 32) else c)"

definition str_lower :: "string \<Rightarrow> string" where
  "str_lower s = map lower_char s"

text \<open>\<open>s.replace(a, b)\<close> for single characters \<open>a\<close> and \<open>b\<close>.\<close>

definition str_replace_char :: "char \<Rightarrow> char \<Rightarrow> string \<Rightarrow> string" where
  "str_replace_char a b s = map (\<lambda>c. if c = a then b else c) s"

text \<open>
  \<open>s.title()\<close>: a cased character is upper-cased when the character before it is
  not cased, and lower-cased otherwise. The flag says whether the previous character
  was cased.
\<close>

fun title_from :: "bool \<Rightarrow> string \<Rightarrow> string" where
  "title_from prev [] = []"
| "title_from prev (c # cs) =
     (if is_upper c \<or> is_lower c
      then (if prev then lower_char c else upper_char c) # title_from True cs
      else c # title_from False cs)"

definition str_title :: "string \<Rightarrow> string" where
  "str_title s = title_from False s"

text \<open>\<open>list.index\<close>: the position of the first occurrence, \<open>None\<close> for ValueError.\<close>

fun list_index :: "'a list \<Rightarrow> 'a \<Rightarrow> nat option" where
  "list_index [] v = None"
| "list_index (x # xs) v =
     (if x = v then Some 0 else map_option Suc (list_index xs v))"

text \<open>\<open>str(n)\<close> for a non-negative integer.\<close>

definition digit_char :: "nat \<Rightarrow> char" where
  "digit_char d = char_of (48 + d)"

function str_of_nat :: "nat \<Rightarrow> string" where
  "str_of_nat n =
     (if n < 10 then [digit_char n] else str_of_nat (n div 10) @ [digit_char (n mod 10)])"
  by pat_completeness auto
termination
  by (relation "measure id") auto

text \<open>POSIX \<open>os.path.join(path, *bs)\<close>.\<close>

fun os_path_join :: "string \<Rightarrow> string list \<Rightarrow> string" where
  "os_path_join path [] = path"
| "os_path_join path (b # bs) =
     os_path_join
       (if prefix ''/'' b then b
        else if path = [] \<or> suffix ''/'' path then path @ b
        else path @ ''/'' @ b) bs"

definition nl :: string where
  "nl = [CHR 0x0A]"

section \<open>The file system seen by the scripts\<close>

text \<open>
  What the operating system holds at a path: nothing (\<open>os.path.exists\<close> is false),
  something that exists but cannot be opened or read as text (\<open>open\<close> or \<open>read\<close>
  raises), or a text file with its content.
\<close>

datatype fs_entry = Missing | Unreadable | File string

type_synonym file_system = "string \<Rightarrow> fs_entry"

section \<open>kimi-dev-system-debug.py\<close>

record issue =
  type :: string
  category :: string
  title :: string
  file' :: string
  description :: string
  impact :: string
  fix' :: string

record fix_entry =
  priority :: nat
  issue :: issue
  implementation_steps :: "string list"

text \<open>The attributes of a \<open>SystemDebugAnalyzer\<close> object.\<close>

record analyzer =
  repo_path :: string
  issues :: "issue list"
  fixes' :: "fix_entry list"

definition init_analyzer :: "string \<Rightarrow> analyzer" where
  "init_analyzer path = \<lparr>repo_path = path, issues = [], fixes' = []\<rparr>"

definition analyze_database_schema_errors ::
  "analyzer \<Rightarrow> file_system \<Rightarrow> py_error + issue list" where
  "analyze_database_schema_errors self fs =
     (let storage_file = os_path_join (repo_path self) [''server'', ''storage.ts'']
      in case fs storage_file of
           Missing \<Rightarrow> Inr []
         | Unreadable \<Rightarrow> Inl ReadError
         | File content \<Rightarrow>
             Inr (if str_in ''monthly_target'' content
                  then [\<lparr>type = ''critical'',
                         category = ''database_schema'',
                         title = ''Missing monthly_target column in database'',
                         file' = ''server/storage.ts'',
                         description =
                           ''Code references monthly_target column that doesn'' @ [CHR 0x27] @
                           ''t exist in database'',
                         impact = ''API endpoints failing with 500 errors'',
                         fix' = ''Remove monthly_target references or add column to schema''\<rparr>]
                  else []))"

definition performance_files :: "string list" where
  "performance_files =
     [''client/src/pages/performance.tsx'',
      ''client/src/pages/performance-simple.tsx'',
      ''client/src/pages/performance-direct.tsx'']"

definition date_issue :: "string \<Rightarrow> issue" where
  "date_issue file_path =
     \<lparr>type = ''data_accuracy'',
      category = ''date_consistency'',
      title = ''Hardcoded October dates in '' @ file_path,
      file' = file_path,
      description = ''Sales data showing October 2025 instead of current June'',
      impact = ''Incorrect date display in performance analytics'',
      fix' = ''Update to dynamic current month or correct June data''\<rparr>"

fun scan_dates ::
  "analyzer \<Rightarrow> file_system \<Rightarrow> string list \<Rightarrow> issue list \<Rightarrow> py_error + issue list" where
  "scan_dates self fs [] acc = Inr acc"
| "scan_dates self fs (file_path # rest) acc =
     (case fs (os_path_join (repo_path self) [file_path]) of
        Missing \<Rightarrow> scan_dates self fs rest acc
      | Unreadable \<Rightarrow> Inl ReadError
      | File content \<Rightarrow>
          scan_dates self fs rest
            (if str_in ''month=10'' content \<or> str_in ''October'' content
             then acc @ [date_issue file_path] else acc))"

definition analyze_date_inconsistencies ::
  "analyzer \<Rightarrow> file_system \<Rightarrow> py_error + issue list" where
  "analyze_date_inconsistencies self fs = scan_dates self fs performance_files []"

definition analyze_client_deletion_errors ::
  "analyzer \<Rightarrow> file_system \<Rightarrow> py_error + issue list" where
  "analyze_client_deletion_errors self fs =
     (let routes_file = os_path_join (repo_path self) [''server'', ''routes.ts'']
      in case fs routes_file of
           Missing \<Rightarrow> Inr []
         | Unreadable \<Rightarrow> Inl ReadError
         | File content \<Rightarrow>
             Inr (if str_in ''DELETE'' content \<and> str_in ''/api/clients'' content
                  then (if \<not> str_in ''foreign key'' (str_lower content)
                        then [\<lparr>type = ''functionality'',
                               category = ''client_management'',
                               title = ''Client deletion missing foreign key handling'',
                               file' = ''server/routes.ts'',
                               description =
                                 ''Client deletion may fail due to foreign key constraints'',
                               impact = ''Users cannot delete clients with existing sales'',
                               fix' = ''Add proper foreign key constraint error handling''\<rparr>]
                        else [])
                  else []))"

definition analyze_ui_display_inconsistencies ::
  "analyzer \<Rightarrow> file_system \<Rightarrow> py_error + issue list" where
  "analyze_ui_display_inconsistencies self fs =
     (let app_file = os_path_join (repo_path self) [''client'', ''src'', ''App.tsx'']
      in case fs app_file of
           Missing \<Rightarrow> Inr []
         | Unreadable \<Rightarrow> Inl ReadError
         | File content \<Rightarrow>
             (let lazy_count = str_count content ''lazy('';
                  direct_import_count =
                    str_count content ''import '' - str_count content ''import { lazy''
              in Inr (if 0 < lazy_count \<and> 0 < direct_import_count
                      then [\<lparr>type = ''ui_consistency'',
                             category = ''component_loading'',
                             title = ''Mixed lazy and direct component loading'',
                             file' = ''client/src/App.tsx'',
                             description =
                               ''Different loading strategies causing UI inconsistencies'',
                             impact =
                               ''Performance dashboard looks different in preview vs full view'',
                             fix' = ''Standardize component loading strategy''\<rparr>]
                      else [])))"

definition files_to_check :: "string list" where
  "files_to_check =
     [''server/storage.ts'',
      ''server/routes.ts'',
      ''shared/schema.ts'',
      ''client/src/pages/performance-direct.tsx'']"

definition commission_issue :: "string \<Rightarrow> issue" where
  "commission_issue file_path =
     \<lparr>type = ''feature_removal'',
      category = ''commission_system'',
      title = ''Commission references in '' @ file_path,
      file' = file_path,
      description = ''Commission system needs to be removed as requested'',
      impact = ''Unnecessary commission data displayed'',
      fix' = ''Remove commission calculations and UI elements''\<rparr>"

fun scan_commission ::
  "analyzer \<Rightarrow> file_system \<Rightarrow> string list \<Rightarrow> issue list \<Rightarrow> py_error + issue list" where
  "scan_commission self fs [] acc = Inr acc"
| "scan_commission self fs (file_path # rest) acc =
     (case fs (os_path_join (repo_path self) [file_path]) of
        Missing \<Rightarrow> scan_commission self fs rest acc
      | Unreadable \<Rightarrow> Inl ReadError
      | File content \<Rightarrow>
          scan_commission self fs rest
            (if str_in ''commission'' (str_lower content)
             then acc @ [commission_issue file_path] else acc))"

definition analyze_commission_system_removal ::
  "analyzer \<Rightarrow> file_system \<Rightarrow> py_error + issue list" where
  "analyze_commission_system_removal self fs = scan_commission self fs files_to_check []"

definition bind_err :: "py_error + 'a \<Rightarrow> ('a \<Rightarrow> py_error + 'b) \<Rightarrow> py_error + 'b" where
  "bind_err m f = (case m of Inl e \<Rightarrow> Inl e | Inr v \<Rightarrow> f v)"

text \<open>
  The first half of \<open>generate_systematic_fixes\<close>: the five analyzers run in this
  order and \<open>all_issues\<close> is extended with what each returns. An exception of any
  analyzer leaves the method.
\<close>

definition collect_issues :: "analyzer \<Rightarrow> file_system \<Rightarrow> py_error + issue list" where
  "collect_issues self fs =
     bind_err (analyze_database_schema_errors self fs) (\<lambda>a.
     bind_err (analyze_date_inconsistencies self fs) (\<lambda>b.
     bind_err (analyze_client_deletion_errors self fs) (\<lambda>c.
     bind_err (analyze_ui_display_inconsistencies self fs) (\<lambda>d.
     bind_err (analyze_commission_system_removal self fs) (\<lambda>e.
     Inr (a @ b @ c @ d @ e))))))"

definition priority_order :: "string list" where
  "priority_order =
     [''critical'', ''functionality'', ''ui_consistency'', ''data_accuracy'', ''feature_removal'']"

text \<open>
  \<open>sorted(all_issues, key=lambda x: priority_order.index(x["type"]))\<close>: the key of
  every element is computed first (\<open>index\<close> raises ValueError for a type that is not
  in the list), then the elements are sorted by their keys, stably.
\<close>

definition sort_keys :: "issue list \<Rightarrow> nat list option" where
  "sort_keys all_issues = those (map (\<lambda>x. list_index priority_order (type x)) all_issues)"

definition sorted_by_priority :: "issue list \<Rightarrow> py_error + issue list" where
  "sorted_by_priority all_issues =
     (case sort_keys all_issues of
        None \<Rightarrow> Inl ValueError
      | Some keys \<Rightarrow> Inr (map snd (sort_key fst (zip keys all_issues))))"

definition generate_fix_steps :: "issue \<Rightarrow> string list" where
  "generate_fix_steps x =
     (if category x = ''database_schema'' then
        [''Remove monthly_target column references from storage.ts'',
         ''Update API queries to exclude monthly_target'',
         ''Test stores and sales-persons endpoints'']
      else if category x = ''date_consistency'' then
        [''Update hardcoded October dates to June 2025'',
         ''Change month=10 to month=6 in API calls'',
         ''Update display text from October to June'']
      else if category x = ''client_management'' then
        [''Add foreign key constraint error handling'',
         ''Implement cascade delete or proper error messaging'',
         ''Test client deletion with existing sales'']
      else if category x = ''component_loading'' then
        [''Convert all lazy components to direct imports'',
         ''Remove React.lazy() wrappers causing suspension'',
         ''Test performance dashboard consistency'']
      else if category x = ''commission_system'' then
        [''Remove commission calculations from backend'',
         ''Remove commission UI elements from frontend'',
         ''Update performance analytics to exclude commission data'']
      else [''Manual analysis required''])"

text \<open>
  The second half of \<open>generate_systematic_fixes\<close>: the sort and the loop over
  \<open>enumerate(sorted_issues, 1)\<close>, whose body appends \<open>make_fix (i, issue)\<close>.
\<close>

definition make_fix :: "nat \<times> issue \<Rightarrow> fix_entry" where
  "make_fix = (\<lambda>(i, x).
     \<lparr>priority = i, issue = x, implementation_steps = generate_fix_steps x\<rparr>)"

definition prioritize_issues :: "issue list \<Rightarrow> py_error + fix_entry list" where
  "prioritize_issues all_issues =
     bind_err (sorted_by_priority all_issues) (\<lambda>sorted_issues.
     Inr (map make_fix (enumerate 1 sorted_issues)))"

definition generate_systematic_fixes ::
  "analyzer \<Rightarrow> file_system \<Rightarrow> py_error + fix_entry list" where
  "generate_systematic_fixes self fs = bind_err (collect_issues self fs) prioritize_issues"

definition report_header :: "string \<Rightarrow> nat \<Rightarrow> string" where
  "report_header now n =
     nl @ ''# Kimi-Dev System Debug Report'' @ nl @
     ''Generated: '' @ now @ nl @
     nl @
     ''## Issues Identified: '' @ str_of_nat n @ nl @
     nl"

definition render_fix :: "fix_entry \<Rightarrow> string" where
  "render_fix fx =
     nl @ ''### Priority '' @ str_of_nat (priority fx) @ '': '' @ title (issue fx) @ nl @
     ''- **Type**: '' @ str_title (str_replace_char (CHR ''_'') (CHR '' '') (type (issue fx))) @ nl @
     ''- **File**: '' @ file' (issue fx) @ nl @
     ''- **Impact**: '' @ impact (issue fx) @ nl @
     ''- **Description**: '' @ description (issue fx) @ nl @
     nl @
     ''**Implementation Steps:**'' @ nl @
     concat (map (\<lambda>step. ''- '' @ step @ nl) (implementation_steps fx)) @
     nl"

text \<open>The two non-ASCII marks of the closing text, as the bytes the source file holds.\<close>

definition arrow_mark :: string where
  "arrow_mark = [CHR 0xE2, CHR 0x80, CHR 0x9A, CHR 0xC3, CHR 0x9C, CHR 0xC3, CHR 0xAD]"

definition check_mark :: string where
  "check_mark = [CHR 0xE2, CHR 0x80, CHR 0x9A, CHR 0xC3, CHR 0xBA, CHR 0xC3, CHR 0xAC]"

definition report_footer :: string where
  "report_footer =
     nl @ ''## Recommended Implementation Order:'' @ nl @
     ''1. Fix critical database schema errors first (stores/sales-persons API)'' @ nl @
     ''2. Fix client deletion functionality'' @ nl @
     ''3. Standardize component loading to fix UI inconsistencies'' @ nl @
     ''4. Update date consistency (October '' @ arrow_mark @ '' June)'' @ nl @
     ''5. Remove commission system as requested'' @ nl @
     nl @
     ''## Expected Outcomes:'' @ nl @
     ''- '' @ check_mark @ '' Stores and sales persons data restored in Sales tab'' @ nl @
     ''- '' @ check_mark @ '' Client deletion working properly'' @ nl @
     ''- '' @ check_mark @
       '' Performance dashboard consistent between preview and full view'' @ nl @
     ''- '' @ check_mark @ '' Sales data showing correct June 2025 dates'' @ nl @
     ''- '' @ check_mark @ '' Commission data removed as requested'' @ nl"

text \<open>
  \<open>now\<close> is the text of \<open>datetime.now().strftime('%Y-%m-%d %H:%M:%S')\<close>, the
  reading of the clock when the report is built.
\<close>

definition create_implementation_report ::
  "analyzer \<Rightarrow> file_system \<Rightarrow> string \<Rightarrow> py_error + string" where
  "create_implementation_report self fs now =
     bind_err (generate_systematic_fixes self fs) (\<lambda>fixes.
     Inr (report_header now (length fixes) @ concat (map render_fix fixes) @ report_footer))"

text \<open>
  \<open>main\<close>: the analyzer is built with the default \<open>repo_path\<close>, the report is
  written to \<open>kimi-dev-debug-report.md\<close> and printed. \<open>writable\<close> says whether
  opening and writing that file succeeds. An exception that leaves \<open>main\<close> ends the
  interpreter with exit code 1; console output is not part of the model.
\<close>

record run_result =
  exit_code :: int
  saved_report :: "string option"

definition main :: "file_system \<Rightarrow> string \<Rightarrow> bool \<Rightarrow> run_result" where
  "main fs now writable =
     (case create_implementation_report (init_analyzer ''.'') fs now of
        Inl e \<Rightarrow> \<lparr>exit_code = 1, saved_report = None\<rparr>
      | Inr report \<Rightarrow>
          if writable then \<lparr>exit_code = 0, saved_report = Some report\<rparr>
          else \<lparr>exit_code = 1, saved_report = None\<rparr>)"

section \<open>kimi-dev-phase2-analyzer.py\<close>

text \<open>
  What lies under \<open>repo_path\<close>, keyed by the path relative to \<open>repo_path\<close> as the
  source writes it: \<open>entries\<close> answers \<open>exists\<close>, \<open>open\<close> and \<open>read\<close>;
  \<open>walk_client_src\<close> is what \<open>os.walk(repo_path / "client/src")\<close> yields, the root of
  each directory with its file names, in the order of the walk (empty when the directory
  does not exist); \<open>st_size\<close> is the size \<open>stat\<close> reports, \<open>None\<close> when \<open>stat\<close>
  raises. The roots of the walk lie under \<open>repo_path\<close>, so that \<open>relative_to\<close> gives
  the key of a file and does not raise. Console output is not part of the model.
\<close>

record file_tree =
  entries :: "string \<Rightarrow> fs_entry"
  walk_client_src :: "(string \<times> string list) list"
  st_size :: "string \<Rightarrow> nat option"

record phase2_issue =
  p2_file :: string
  p2_issue :: string
  severity :: string
  p2_description :: string
  p2_fix :: string
  error_pattern :: "string option"

definition analyze_dashboard_metrics_error :: "file_tree \<Rightarrow> py_error + phase2_issue list" where
  "analyze_dashboard_metrics_error t =
     (case entries t ''server/routes.ts'' of
        Missing \<Rightarrow> Inr []
      | Unreadable \<Rightarrow> Inl ReadError
      | File content \<Rightarrow>
          Inr (if str_in ''/api/dashboard/metrics'' content
               then [\<lparr>p2_file = ''server/routes.ts'',
                      p2_issue = ''Dashboard metrics database error - Date object serialization'',
                      severity = ''HIGH'',
                      p2_description =
                        ''ERR_INVALID_ARG_TYPE: Date object passed where string expected in PostgreSQL query'',
                      p2_fix = ''Convert Date objects to ISO strings before database queries'',
                      error_pattern =
                        Some (''The '' @ [CHR 0x22] @ ''string'' @ [CHR 0x22] @
                              '' argument must be of type string or an instance of Buffer'')\<rparr>]
               else []))"

definition image_components :: "string list" where
  "image_components =
     [''client/src/components/inventory-table.tsx'',
      ''client/src/components/inventory-card-view.tsx'',
      ''client/src/components/item-details-modal.tsx'']"

definition eager_issue :: "string \<Rightarrow> phase2_issue" where
  "eager_issue component_path =
     \<lparr>p2_file = component_path,
      p2_issue = ''Images using eager loading instead of lazy loading'',
      severity = ''MEDIUM'',
      p2_description = ''All images load immediately, impacting initial page performance'',
      p2_fix = ''Implement intersection observer-based lazy loading for images'',
      error_pattern = None\<rparr>"

definition no_loading_issue :: "string \<Rightarrow> phase2_issue" where
  "no_loading_issue component_path =
     \<lparr>p2_file = component_path,
      p2_issue = ''Images missing loading strategy'',
      severity = ''MEDIUM'',
      p2_description = ''No loading strategy specified for images'',
      p2_fix = ''Add loading='' @ [CHR 0x27] @ ''lazy'' @ [CHR 0x27] @
               '' attribute to non-critical images'',
      error_pattern = None\<rparr>"

definition eager_text :: string where
  "eager_text = ''loading='' @ [CHR 0x22] @ ''eager'' @ [CHR 0x22]"

fun scan_images ::
  "file_tree \<Rightarrow> string list \<Rightarrow> phase2_issue list \<Rightarrow> py_error + phase2_issue list" where
  "scan_images t [] acc = Inr acc"
| "scan_images t (component_path # rest) acc =
     (case entries t component_path of
        Missing \<Rightarrow> scan_images t rest acc
      | Unreadable \<Rightarrow> Inl ReadError
      | File content \<Rightarrow>
          scan_images t rest
            (acc
             @ (if str_in eager_text content \<or> str_in eager_text content
                then [eager_issue component_path] else [])
             @ (if str_in ''<img'' content \<and> \<not> str_in ''loading='' content
                then [no_loading_issue component_path] else [])))"

definition analyze_image_lazy_loading_opportunities ::
  "file_tree \<Rightarrow> py_error + phase2_issue list" where
  "analyze_image_lazy_loading_opportunities t = scan_images t image_components []"

text \<open>
  The walk of \<open>analyze_bundle_size_optimization\<close>. A file whose \<open>stat\<close> raises is
  passed over by the bare \<open>except\<close>. An entry of \<open>large_components\<close> is the path
  relative to \<open>repo_path\<close> and the size in bytes.
\<close>

definition path_under :: "string \<Rightarrow> string \<Rightarrow> string" where
  "path_under root name = root @ ''/'' @ name"

fun scan_files :: "file_tree \<Rightarrow> string \<Rightarrow> string list \<Rightarrow> (string \<times> nat) list" where
  "scan_files t root [] = []"
| "scan_files t root (name # rest) =
     (if suffix ''.tsx'' name \<or> suffix ''.ts'' name
      then (case st_size t (path_under root name) of
              None \<Rightarrow> []
            | Some file_size \<Rightarrow>
                if 15000 < file_size then [(path_under root name, file_size)] else [])
      else [])
     @ scan_files t root rest"

fun scan_walk :: "file_tree \<Rightarrow> (string \<times> string list) list \<Rightarrow> (string \<times> nat) list" where
  "scan_walk t [] = []"
| "scan_walk t ((root, names) # rest) = scan_files t root names @ scan_walk t rest"

text \<open>\<open>sep.join(xs)\<close>.\<close>

fun str_join :: "string \<Rightarrow> string list \<Rightarrow> string" where
  "str_join sep [] = []"
| "str_join sep [x] = x"
| "str_join sep (x # y # ys) = x @ sep @ str_join sep (y # ys)"

text \<open>
  \<open>kb_text n\<close> is the text of \<open>round(n / 1024, 2)\<close>, a floating-point number, and is
  left as a parameter.
\<close>

definition large_components_issue ::
  "(nat \<Rightarrow> string) \<Rightarrow> (string \<times> nat) list \<Rightarrow> phase2_issue list" where
  "large_components_issue kb_text large_components =
     (if large_components \<noteq> []
      then [\<lparr>p2_file = ''Multiple large components'',
             p2_issue = ''Large component files detected'',
             severity = ''MEDIUM'',
             p2_description =
               ''Large components increase bundle size: '' @
               str_join '', ''
                 (map (\<lambda>(f, size). f @ '' ('' @ kb_text size @ ''KB)'')
                      (take 3 large_components)),
             p2_fix = ''Implement code splitting and lazy loading for large components'',
             error_pattern = None\<rparr>]
      else [])"

definition no_code_splitting_issue :: phase2_issue where
  "no_code_splitting_issue =
     \<lparr>p2_file = ''client/src/App.tsx'',
      p2_issue = ''No code splitting implemented'',
      severity = ''MEDIUM'',
      p2_description =
        ''All components loaded synchronously, increasing initial bundle size'',
      p2_fix = ''Implement React.lazy for non-critical route components'',
      error_pattern = None\<rparr>"

definition analyze_bundle_size_optimization ::
  "(nat \<Rightarrow> string) \<Rightarrow> file_tree \<Rightarrow> py_error + phase2_issue list" where
  "analyze_bundle_size_optimization kb_text t =
     (let large_components = scan_walk t (walk_client_src t);
          found = large_components_issue kb_text large_components
      in case entries t ''client/src/App.tsx'' of
           Missing \<Rightarrow> Inr found
         | Unreadable \<Rightarrow> Inl ReadError
         | File content \<Rightarrow>
             Inr (found @
                  (if \<not> str_in ''React.lazy'' content \<and> \<not> str_in ''lazy('' content
                   then [no_code_splitting_issue] else [])))"

text \<open>
  \<open>re.search(r'try\s*\{.*?\}\s*catch', content, re.DOTALL)\<close> finds a match exactly
  when somewhere in the content \<open>try\<close> is followed, after any white space, by an
  opening brace, and somewhere after that brace a closing brace is followed, after any
  white space, by \<open>catch\<close>. White space is what \<open>\s\<close> matches among the ASCII
  characters.
\<close>

definition is_space :: "char \<Rightarrow> bool" where
  "is_space c =
     ((9 \<le> (of_char c :: nat) \<and> (of_char c :: nat) \<le> 13) \<or>
      (28 \<le> (of_char c :: nat) \<and> (of_char c :: nat) \<le> 32))"

fun closes_with_catch :: "string \<Rightarrow> bool" where
  "closes_with_catch [] = False"
| "closes_with_catch (c # cs) =
     ((c = CHR ''}'' \<and> prefix ''catch'' (dropWhile is_space cs)) \<or> closes_with_catch cs)"

fun has_try_catch :: "string \<Rightarrow> bool" where
  "has_try_catch [] = False"
| "has_try_catch (c # cs) =
     ((prefix ''try'' (c # cs) \<and>
       (case dropWhile is_space (drop 3 (c # cs)) of
          [] \<Rightarrow> False
        | d # ds \<Rightarrow> d = CHR ''{'' \<and> closes_with_catch ds))
      \<or> has_try_catch cs)"

definition critical_components :: "string list" where
  "critical_components =
     [''client/src/components/image-upload.tsx'',
      ''client/src/components/item-details-modal.tsx'',
      ''client/src/pages/dashboard.tsx'']"

definition error_handling_issue :: "string \<Rightarrow> phase2_issue" where
  "error_handling_issue component_path =
     \<lparr>p2_file = component_path,
      p2_issue = ''Missing comprehensive error handling'',
      severity = ''MEDIUM'',
      p2_description = ''No try-catch blocks or error boundaries detected'',
      p2_fix = ''Add error boundaries and try-catch for async operations'',
      error_pattern = None\<rparr>"

fun scan_error_handling ::
  "file_tree \<Rightarrow> string list \<Rightarrow> phase2_issue list \<Rightarrow> py_error + phase2_issue list" where
  "scan_error_handling t [] acc = Inr acc"
| "scan_error_handling t (component_path # rest) acc =
     (case entries t component_path of
        Missing \<Rightarrow> scan_error_handling t rest acc
      | Unreadable \<Rightarrow> Inl ReadError
      | File content \<Rightarrow>
          (let has_error_boundary = str_in ''ErrorBoundary'' content
           in scan_error_handling t rest
                (if \<not> has_try_catch content \<and> \<not> has_error_boundary
                 then acc @ [error_handling_issue component_path] else acc)))"

definition analyze_error_handling_gaps :: "file_tree \<Rightarrow> py_error + phase2_issue list" where
  "analyze_error_handling_gaps t = scan_error_handling t critical_components []"

definition server_monitoring_issue :: phase2_issue where
  "server_monitoring_issue =
     \<lparr>p2_file = ''server/index.ts'',
      p2_issue = ''No performance monitoring middleware'',
      severity = ''LOW'',
      p2_description = ''No request timing or performance metrics collection'',
      p2_fix = ''Add express middleware for request timing and performance metrics'',
      error_pattern = None\<rparr>"

definition client_monitoring_issue :: phase2_issue where
  "client_monitoring_issue =
     \<lparr>p2_file = ''client/src/main.tsx'',
      p2_issue = ''No client-side performance monitoring'',
      severity = ''LOW'',
      p2_description = ''No Web Vitals or performance metrics collection'',
      p2_fix = ''Add Web Vitals monitoring for Core Web Vitals metrics'',
      error_pattern = None\<rparr>"

definition analyze_performance_monitoring_gaps ::
  "file_tree \<Rightarrow> py_error + phase2_issue list" where
  "analyze_performance_monitoring_gaps t =
     bind_err
       (case entries t ''server/index.ts'' of
          Missing \<Rightarrow> Inr []
        | Unreadable \<Rightarrow> Inl ReadError
        | File content \<Rightarrow>
            Inr (if \<not> str_in ''performance'' (str_lower content) \<and>
                    \<not> str_in ''timing'' (str_lower content)
                 then [server_monitoring_issue] else []))
       (\<lambda>found.
          case entries t ''client/src/main.tsx'' of
            Missing \<Rightarrow> Inr found
          | Unreadable \<Rightarrow> Inl ReadError
          | File content \<Rightarrow>
              Inr (if \<not> str_in ''performance'' (str_lower content) \<and>
                      \<not> str_in ''vitals'' (str_lower content)
                   then found @ [client_monitoring_issue] else found))"

definition pagination_issue :: phase2_issue where
  "pagination_issue =
     \<lparr>p2_file = ''server/routes.ts'',
      p2_issue = ''Inventory API missing pagination'',
      severity = ''MEDIUM'',
      p2_description = ''Inventory endpoint returns all items without pagination'',
      p2_fix = ''Implement pagination with limit/offset parameters'',
      error_pattern = None\<rparr>"

definition compression_issue :: phase2_issue where
  "compression_issue =
     \<lparr>p2_file = ''server/index.ts'',
      p2_issue = ''No response compression middleware'',
      severity = ''LOW'',
      p2_description = ''API responses not compressed, increasing transfer size'',
      p2_fix = ''Add compression middleware for gzip/deflate responses'',
      error_pattern = None\<rparr>"

definition analyze_api_response_optimization ::
  "file_tree \<Rightarrow> py_error + phase2_issue list" where
  "analyze_api_response_optimization t =
     (case entries t ''server/routes.ts'' of
        Missing \<Rightarrow> Inr []
      | Unreadable \<Rightarrow> Inl ReadError
      | File content \<Rightarrow>
          Inr ((if str_in ''/api/inventory'' content \<and> \<not> str_in ''limit'' content
                then [pagination_issue] else [])
               @ (if \<not> str_in ''compression'' content \<and> \<not> str_in ''gzip'' content
                  then [compression_issue] else [])))"


text \<open>
  The two halves of \<open>generate_phase2_improvements\<close>: the six analyzers in the order
  of the source, then the three list comprehensions over \<open>all_issues\<close>.
\<close>

definition collect_phase2_issues ::
  "(nat \<Rightarrow> string) \<Rightarrow> file_tree \<Rightarrow> py_error + phase2_issue list" where
  "collect_phase2_issues kb_text t =
     bind_err (analyze_dashboard_metrics_error t) (\<lambda>a.
     bind_err (analyze_image_lazy_loading_opportunities t) (\<lambda>b.
     bind_err (analyze_bundle_size_optimization kb_text t) (\<lambda>c.
     bind_err (analyze_error_handling_gaps t) (\<lambda>d.
     bind_err (analyze_performance_monitoring_gaps t) (\<lambda>e.
     bind_err (analyze_api_response_optimization t) (\<lambda>f.
     Inr (a @ b @ c @ d @ e @ f)))))))"



section \<open>Notions used to state the properties\<close>

text \<open>
  The rank of an issue in the priority table: the key of the sort. An issue whose type
  is not in the table has no key in the source; here it is given the length of the table.
\<close>

definition rank_of :: "issue \<Rightarrow> nat" where
  "rank_of x =
     (case list_index priority_order (type x) of
        Some k \<Rightarrow> k
      | None \<Rightarrow> length priority_order)"

text \<open>
  The table of \<open>generate_fix_steps\<close> written as the mapping from category to steps
  that the specification describes.
\<close>

definition step_template_table :: "(string \<times> string list) list" where
  "step_template_table =
     [(''database_schema'',
       [''Remove monthly_target column references from storage.ts'',
        ''Update API queries to exclude monthly_target'',
        ''Test stores and sales-persons endpoints'']),
      (''date_consistency'',
       [''Update hardcoded October dates to June 2025'',
        ''Change month=10 to month=6 in API calls'',
        ''Update display text from October to June'']),
      (''client_management'',
       [''Add foreign key constraint error handling'',
        ''Implement cascade delete or proper error messaging'',
        ''Test client deletion with existing sales'']),
      (''component_loading'',
       [''Convert all lazy components to direct imports'',
        ''Remove React.lazy() wrappers causing suspension'',
        ''Test performance dashboard consistency'']),
      (''commission_system'',
       [''Remove commission calculations from backend'',
        ''Remove commission UI elements from frontend'',
        ''Update performance analytics to exclude commission data''])]"

text \<open>
  The paths that the analyzers of \<open>generate_systematic_fixes\<close> look for, as the lists
  of components they join to \<open>repo_path\<close>. Under a root path that is missing, or that
  cannot be searched, \<open>os.path.exists\<close> is false for every one of them.
\<close>

definition probed_paths :: "string list list" where
  "probed_paths =
     [[''server'', ''storage.ts'']] @ map (\<lambda>p. [p]) performance_files @
     [[''server'', ''routes.ts''], [''client'', ''src'', ''App.tsx'']] @
     map (\<lambda>p. [p]) files_to_check"

text \<open>
  The report around the reading of the clock: the text before it, and the text after it,
  which depends on the fixes only.
\<close>

definition report_before_time :: string where
  "report_before_time = nl @ ''# Kimi-Dev System Debug Report'' @ nl @ ''Generated: ''"

definition report_after_time :: "fix_entry list \<Rightarrow> string" where
  "report_after_time fixes =
     nl @ nl @ ''## Issues Identified: '' @ str_of_nat (length fixes) @ nl @ nl @
     concat (map render_fix fixes) @ report_footer"

section \<open>Concrete inputs\<close>

text \<open>
  A file system with a repository under \<open>/srv/app\<close> and nothing at \<open>/srv/missing\<close>.
\<close>

definition elsewhere_fs :: file_system where
  "elsewhere_fs =
     (\<lambda>p. if p = ''/srv/app/server/storage.ts'' then File ''monthly_target''
          else if p = ''/srv/app/server/routes.ts'' then File ''commission''
          else Missing)"

text \<open>
  A repository in the current directory in which \<open>server/storage.ts\<close> mentions
  \<open>monthly_target\<close> and two of the performance pages mention October.
\<close>

definition october_fs :: file_system where
  "october_fs =
     (\<lambda>p. if p = ''./server/storage.ts'' then File ''monthly_target''
          else if p = ''./client/src/pages/performance.tsx'' then File ''October''
          else if p = ''./client/src/pages/performance-simple.tsx'' then File ''month=10''
          else Missing)"

definition october_fixes :: "fix_entry list" where
  "october_fixes =
     [\<lparr>priority = 1,
       issue = \<lparr>type = ''critical'',
                category = ''database_schema'',
                title = ''Missing monthly_target column in database'',
                file' = ''server/storage.ts'',
                description =
                  ''Code references monthly_target column that doesn'' @ [CHR 0x27] @
                  ''t exist in database'',
                impact = ''API endpoints failing with 500 errors'',
                fix' = ''Remove monthly_target references or add column to schema''\<rparr>,
       implementation_steps =
         [''Remove monthly_target column references from storage.ts'',
          ''Update API queries to exclude monthly_target'',
          ''Test stores and sales-persons endpoints'']\<rparr>,
      \<lparr>priority = 2,
       issue = date_issue ''client/src/pages/performance.tsx'',
       implementation_steps =
         [''Update hardcoded October dates to June 2025'',
          ''Change month=10 to month=6 in API calls'',
          ''Update display text from October to June'']\<rparr>,
      \<lparr>priority = 3,
       issue = date_issue ''client/src/pages/performance-simple.tsx'',
       implementation_steps =
         [''Update hardcoded October dates to June 2025'',
          ''Change month=10 to month=6 in API calls'',
          ''Update display text from October to June'']\<rparr>]"

text \<open>
  A list of issues as the analyzers build them, not in the order of the priority table,
  and the fixes \<open>prioritize_issues\<close> makes of it. The last issue has a category
  that \<open>generate_fix_steps\<close> does not know.
\<close>

definition audit_issue :: issue where
  "audit_issue =
     \<lparr>type = ''functionality'', category = ''audit_log'', title = ''No audit log'',
      file' = ''server/audit.ts'', description = ''Changes are not logged'',
      impact = ''No trace of changes'', fix' = ''Add an audit log''\<rparr>"

definition sample_issues :: "issue list" where
  "sample_issues =
     [date_issue ''b.tsx'', commission_issue ''a.ts'', date_issue ''a.tsx'', audit_issue]"

definition sample_fixes :: "fix_entry list" where
  "sample_fixes =
     [\<lparr>priority = 1, issue = audit_issue,
       implementation_steps = [''Manual analysis required'']\<rparr>,
      \<lparr>priority = 2, issue = date_issue ''b.tsx'',
       implementation_steps =
         [''Update hardcoded October dates to June 2025'',
          ''Change month=10 to month=6 in API calls'',
          ''Update display text from October to June'']\<rparr>,
      \<lparr>priority = 3, issue = date_issue ''a.tsx'',
       implementation_steps =
         [''Update hardcoded October dates to June 2025'',
          ''Change month=10 to month=6 in API calls'',
          ''Update display text from October to June'']\<rparr>,
      \<lparr>priority = 4, issue = commission_issue ''a.ts'',
       implementation_steps =
         [''Remove commission calculations from backend'',
          ''Remove commission UI elements from frontend'',
          ''Update performance analytics to exclude commission data'']\<rparr>]"

text \<open>A change of an issue that leaves its type alone.\<close>

definition retitle :: "issue \<Rightarrow> issue" where
  "retitle x = x\<lparr>title := ''(moved) '' @ title x, file' := ''z/'' @ file' x\<rparr>"








text \<open>
  Whether \<open>analyze_commission_system_removal\<close> has a match at a path: the file exists,
  is read, and mentions commission in any case of the letters.
\<close>

definition commission_match :: "analyzer \<Rightarrow> file_system \<Rightarrow> string \<Rightarrow> bool" where
  "commission_match self fs file_path =
     (case fs (os_path_join (repo_path self) [file_path]) of
        File content \<Rightarrow> str_in ''commission'' (str_lower content)
      | _ \<Rightarrow> False)"

text \<open>
  What \<open>analyze_bundle_size_optimization\<close> is to find, said without the loops: the
  components of the walk are the files whose name ends in \<open>.tsx\<close> or \<open>.ts\<close>; the
  large files are the components whose \<open>stat\<close> succeeds with a size over 15000
  bytes, in the order of the walk; the one finding made of them names the files it is
  given; and the check of \<open>App.tsx\<close> gives at most one more finding.
\<close>

definition is_component :: "string \<Rightarrow> bool" where
  "is_component name = (suffix ''.tsx'' name \<or> suffix ''.ts'' name)"

definition component_paths :: "file_tree \<Rightarrow> string list" where
  "component_paths t =
     concat (map (\<lambda>(root, names). map (path_under root) (filter is_component names))
                 (walk_client_src t))"

definition large_size :: "file_tree \<Rightarrow> string \<Rightarrow> (string \<times> nat) option" where
  "large_size t p =
     (case st_size t p of
        None \<Rightarrow> None
      | Some n \<Rightarrow> if 15000 < n then Some (p, n) else None)"

definition large_files :: "file_tree \<Rightarrow> (string \<times> nat) list" where
  "large_files t = List.map_filter (large_size t) (component_paths t)"

definition merged_finding :: "(nat \<Rightarrow> string) \<Rightarrow> (string \<times> nat) list \<Rightarrow> phase2_issue" where
  "merged_finding kb_text named =
     \<lparr>p2_file = ''Multiple large components'',
      p2_issue = ''Large component files detected'',
      severity = ''MEDIUM'',
      p2_description =
        ''Large components increase bundle size: '' @
        str_join '', '' (map (\<lambda>(f, size). f @ '' ('' @ kb_text size @ ''KB)'') named),
      p2_fix = ''Implement code splitting and lazy loading for large components'',
      error_pattern = None\<rparr>"

definition app_findings :: "file_tree \<Rightarrow> phase2_issue list" where
  "app_findings t =
     (case entries t ''client/src/App.tsx'' of
        File content \<Rightarrow>
          if \<not> str_in ''React.lazy'' content \<and> \<not> str_in ''lazy('' content
          then [no_code_splitting_issue] else []
      | _ \<Rightarrow> [])"

text \<open>
  A stand-in for the text of \<open>round(n / 1024, 2)\<close>, right for a file of 20000 bytes.
\<close>

definition example_kb_text :: "nat \<Rightarrow> string" where
  "example_kb_text n = (if n = 20000 then ''19.53'' else str_of_nat (n div 1024))"



text \<open>A tree with two components of 20000 bytes under \<open>client/src\<close>.\<close>

definition two_large_tree :: file_tree where
  "two_large_tree =
     \<lparr>entries = (\<lambda>p. Missing),
      walk_client_src = [(''client/src'', [''a.tsx'', ''b.tsx''])],
      st_size = (\<lambda>p. Some 20000)\<rparr>"

definition two_large_finding :: phase2_issue where
  "two_large_finding =
     \<lparr>p2_file = ''Multiple large components'',
      p2_issue = ''Large component files detected'',
      severity = ''MEDIUM'',
      p2_description =
        ''Large components increase bundle size: client/src/a.tsx (19.53KB), client/src/b.tsx (19.53KB)'',
      p2_fix = ''Implement code splitting and lazy loading for large components'',
      error_pattern = None\<rparr>"

text \<open>
  A tree with four components of 20000 bytes under \<open>client/src\<close>, one of exactly
  15000 bytes, and a file that is not a component; \<open>App.tsx\<close> imports lazily.
\<close>

definition four_large_tree :: file_tree where
  "four_large_tree =
     \<lparr>entries = (\<lambda>p. if p = ''client/src/App.tsx'' then File ''lazy('' else Missing),
      walk_client_src =
        [(''client/src'', [''a.tsx'', ''notes.md'', ''b.ts'']),
         (''client/src/pages'', [''small.tsx'', ''c.tsx'', ''d.tsx''])],
      st_size = (\<lambda>p. if p = ''client/src/pages/small.tsx'' then Some 15000 else Some 20000)\<rparr>"

definition four_large_files :: "(string \<times> nat) list" where
  "four_large_files =
     [(''client/src/a.tsx'', 20000), (''client/src/b.ts'', 20000),
      (''client/src/pages/c.tsx'', 20000), (''client/src/pages/d.tsx'', 20000)]"

definition four_large_finding :: phase2_issue where
  "four_large_finding =
     \<lparr>p2_file = ''Multiple large components'',
      p2_issue = ''Large component files detected'',
      severity = ''MEDIUM'',
      p2_description =
        ''Large components increase bundle size: client/src/a.tsx (19.53KB), client/src/b.ts (19.53KB), client/src/pages/c.tsx (19.53KB)'',
      p2_fix = ''Implement code splitting and lazy loading for large components'',
      error_pattern = None\<rparr>"



text \<open>A file system in which all four files of \<open>files_to_check\<close> mention commission.\<close>

definition commission_fs :: file_system where
  "commission_fs =
     (\<lambda>p. if p = ''./server/storage.ts'' then File ''commissionRate''
          else if p = ''./server/routes.ts'' then File ''Commission''
          else if p = ''./shared/schema.ts'' then File ''COMMISSION''
          else if p = ''./client/src/pages/performance-direct.tsx'' then File ''total commission''
          else Missing)"

section \<open>The sort of \<open>generate_systematic_fixes\<close>\<close>

lemma list_index_None: "list_index xs v = None \<longleftrightarrow> v \<notin> set xs"
  by (induction xs) auto

lemma those_map_None: "those (map f xs) = None \<longleftrightarrow> (\<exists>x\<in>set xs. f x = None)"
  by (induction xs) (auto split: option.splits)

lemma those_map_Some: "those (map f xs) = Some ks \<Longrightarrow> ks = map (\<lambda>x. the (f x)) xs"
  by (induction xs arbitrary: ks) (auto split: option.splits)

lemma insort_key_map:
  "insort_key g (h x) (map h ys) = map h (insort_key (\<lambda>y. g (h y)) x ys)"
  by (induction ys) auto

lemma sort_key_map: "sort_key g (map h xs) = map h (sort_key (\<lambda>y. g (h y)) xs)"
  by (induction xs) (auto simp: insort_key_map)

lemma insort_key_cong_set:
  "f x = g x \<Longrightarrow> (\<And>y. y \<in> set ys \<Longrightarrow> f y = g y) \<Longrightarrow> insort_key f x ys = insort_key g x ys"
  by (induction ys) auto

lemma sort_key_cong_set:
  "(\<And>x. x \<in> set xs \<Longrightarrow> f x = g x) \<Longrightarrow> sort_key f xs = sort_key g xs"
proof (induction xs)
  case Nil
  then show ?case by simp
next
  case (Cons x xs)
  have "sort_key f xs = sort_key g xs" using Cons by simp
  moreover have "insort_key f x (sort_key g xs) = insort_key g x (sort_key g xs)"
    by (rule insort_key_cong_set) (use Cons.prems in auto)
  ultimately show ?case by simp
qed

lemma zip_map_self: "zip (map k xs) xs = map (\<lambda>x. (k x, x)) xs"
  by (induction xs) auto

lemma decorate_sort: "map snd (sort_key fst (zip (map k xs) xs)) = sort_key k xs"
  by (simp add: zip_map_self sort_key_map comp_def)

lemma sort_keys_Some:
  assumes "sort_keys xs = Some ks"
  shows "ks = map (\<lambda>x. the (list_index priority_order (type x))) xs" and "\<forall>x\<in>set xs. type x \<in> set priority_order"
proof -
  show "ks = map (\<lambda>x. the (list_index priority_order (type x))) xs"
    using assms those_map_Some unfolding sort_keys_def by fastforce
  have "those (map (\<lambda>x. list_index priority_order (type x)) xs) \<noteq> None"
    using assms unfolding sort_keys_def by simp
  then show "\<forall>x\<in>set xs. type x \<in> set priority_order"
    by (simp add: those_map_None list_index_None)
qed

lemma sort_keys_None: "sort_keys xs = None \<longleftrightarrow> (\<exists>x\<in>set xs. type x \<notin> set priority_order)"
  by (simp add: sort_keys_def those_map_None list_index_None)

lemma rank_of_known:
  "type x \<in> set priority_order \<Longrightarrow> the (list_index priority_order (type x)) = rank_of x"
  by (auto simp: rank_of_def list_index_None split: option.splits)

lemma sorted_by_priority_Inr:
  assumes "sorted_by_priority xs = Inr ys"
  shows "ys = sort_key rank_of xs" and "\<forall>x\<in>set xs. type x \<in> set priority_order"
proof -
  obtain ks where ks: "sort_keys xs = Some ks" and ys: "ys = map snd (sort_key fst (zip ks xs))"
    using assms by (auto simp: sorted_by_priority_def split: option.splits)
  show known: "\<forall>x\<in>set xs. type x \<in> set priority_order"
    using sort_keys_Some(2)[OF ks] .
  have "ys = sort_key (\<lambda>x. the (list_index priority_order (type x))) xs"
    using ys sort_keys_Some(1)[OF ks] by (simp add: decorate_sort)
  also have "\<dots> = sort_key rank_of xs"
    by (rule sort_key_cong_set) (use known rank_of_known in auto)
  finally show "ys = sort_key rank_of xs" .
qed

lemma sorted_by_priority_Inl:
  "sorted_by_priority xs = Inl e \<longleftrightarrow> e = ValueError \<and> (\<exists>x\<in>set xs. type x \<notin> set priority_order)"
  by (auto simp: sorted_by_priority_def sort_keys_None[symmetric] split: option.splits)

lemma sorted_by_priority_known:
  assumes "\<forall>x\<in>set xs. type x \<in> set priority_order"
  shows "sorted_by_priority xs = Inr (sort_key rank_of xs)"
proof (cases "sorted_by_priority xs")
  case (Inl e)
  then show ?thesis using assms by (simp add: sorted_by_priority_Inl)
next
  case (Inr ys)
  then show ?thesis using sorted_by_priority_Inr(1) by simp
qed

lemma prioritize_issues_Inr:
  assumes "prioritize_issues xs = Inr fixes"
  shows "fixes = map make_fix (enumerate 1 (sort_key rank_of xs))"
    and "\<forall>x\<in>set xs. type x \<in> set priority_order"
  using assms sorted_by_priority_Inr[of xs]
  by (auto simp: prioritize_issues_def bind_err_def make_fix_def split: sum.splits)

lemma prioritize_issues_known:
  assumes "\<forall>x\<in>set xs. type x \<in> set priority_order"
  shows "prioritize_issues xs = Inr (map make_fix (enumerate 1 (sort_key rank_of xs)))"
  using sorted_by_priority_known[OF assms]
  by (simp add: prioritize_issues_def bind_err_def make_fix_def)

lemma prioritize_issues_Inl:
  "prioritize_issues xs = Inl e \<longleftrightarrow> e = ValueError \<and> (\<exists>x\<in>set xs. type x \<notin> set priority_order)"
  using sorted_by_priority_Inl[of xs e]
  by (auto simp: prioritize_issues_def bind_err_def split: sum.splits)

lemma map_issue_fixes: "map issue (map make_fix (enumerate n ys)) = ys"
  by (induction ys arbitrary: n) (auto simp: make_fix_def)

lemma map_priority_fixes: "map priority (map make_fix (enumerate n ys)) = [n..<n + length ys]"
  by (induction ys arbitrary: n) (auto simp: make_fix_def upt_rec)


lemma list_index_inj:
  "list_index ps a = Some k \<Longrightarrow> list_index ps b = Some k \<Longrightarrow> a = b"
  by (induction ps arbitrary: k) (auto split: if_splits)

lemma rank_eq_iff:
  assumes t: "list_index priority_order t = Some k"
      and x: "type x \<in> set priority_order"
  shows "(type x = t) = (rank_of x = k)"
proof -
  obtain j where j: "list_index priority_order (type x) = Some j"
    using x by (cases "list_index priority_order (type x)") (simp_all add: list_index_None)
  have r: "rank_of x = j"
    by (simp add: rank_of_def j)
  show ?thesis
  proof
    assume "type x = t"
    then show "rank_of x = k" using t j r by simp
  next
    assume "rank_of x = k"
    then have "list_index priority_order (type x) = Some k" using j r by simp
    then show "type x = t" using t by (rule list_index_inj)
  qed
qed

lemma stable_by_type:
  assumes known: "\<forall>x\<in>set xs. type x \<in> set priority_order"
  shows "filter (\<lambda>x. type x = t) (sort_key rank_of xs) = filter (\<lambda>x. type x = t) xs"
proof (cases "list_index priority_order t")
  case (Some k)
  have l: "filter (\<lambda>x. type x = t) (sort_key rank_of xs) = filter (\<lambda>x. rank_of x = k) (sort_key rank_of xs)"
    by (rule filter_cong[OF refl]) (use known rank_eq_iff[OF Some] in simp)
  have r: "filter (\<lambda>x. type x = t) xs = filter (\<lambda>x. rank_of x = k) xs"
    by (rule filter_cong[OF refl]) (use known rank_eq_iff[OF Some] in simp)
  show ?thesis
    unfolding l r by (rule sort_key_stable)
next
  case None
  then have t: "t \<notin> set priority_order"
    by (simp add: list_index_None)
  have a: "filter (\<lambda>x. type x = t) (sort_key rank_of xs) = []"
    unfolding filter_empty_conv using t known by auto
  have b: "filter (\<lambda>x. type x = t) xs = []"
    unfolding filter_empty_conv using t known by auto
  show ?thesis unfolding a b ..
qed

lemma rank_of_type_cong: "type y = type x \<Longrightarrow> rank_of y = rank_of x"
  by (simp add: rank_of_def)

lemma equivariant:
  assumes known: "\<forall>x\<in>set xs. type x \<in> set priority_order"
      and g: "\<forall>x. type (g x) = type x"
  shows "prioritize_issues (map g xs) = Inr (map make_fix (enumerate 1 (map g (sort_key rank_of xs))))"
proof -
  have rank: "(\<lambda>y. rank_of (g y)) = rank_of"
    by (rule ext) (rule rank_of_type_cong, use g in blast)
  have "\<forall>y\<in>set (map g xs). type y \<in> set priority_order"
  proof
    fix y assume "y \<in> set (map g xs)"
    then obtain x where x: "x \<in> set xs" "y = g x" by auto
    have "type y = type x" using x(2) g by simp
    then show "type y \<in> set priority_order" using known x(1) by simp
  qed
  then have run: "prioritize_issues (map g xs) = Inr (map make_fix (enumerate 1 (sort_key rank_of (map g xs))))"
    by (rule prioritize_issues_known)
  have "sort_key rank_of (map g xs) = map g (sort_key rank_of xs)"
    unfolding sort_key_map rank ..
  then show ?thesis using run by simp
qed

section \<open>Runs on the concrete inputs\<close>

lemma run_october:
  "generate_systematic_fixes (init_analyzer ''.'') october_fs = Inr october_fixes"
  by code_simp

lemma run_sample: "prioritize_issues sample_issues = Inr sample_fixes"
  by code_simp

lemma retitle_type: "type (retitle x) = type x"
  by (simp add: retitle_def)

section \<open>The shape of the report\<close>

lemma report_shape:
  "create_implementation_report self fs now =
     (case generate_systematic_fixes self fs of
        Inl e \<Rightarrow> Inl e
      | Inr fixes \<Rightarrow> Inr (report_before_time @ now @ report_after_time fixes))"
  by (simp add: create_implementation_report_def bind_err_def report_header_def
        report_before_time_def report_after_time_def split: sum.splits)

lemma report_eq_iff:
  "(create_implementation_report self fs t1 = create_implementation_report self fs t2) =
     (t1 = t2 \<or> (\<exists>e. generate_systematic_fixes self fs = Inl e))"
  by (cases "generate_systematic_fixes self fs") (simp_all add: report_shape)

section \<open>A root path under which nothing exists\<close>

lemma scan_dates_missing:
  assumes "\<forall>p\<in>set ps. fs (os_path_join (repo_path self) [p]) = Missing"
  shows "scan_dates self fs ps acc = Inr acc"
  using assms by (induction ps arbitrary: acc) (simp_all del: os_path_join.simps)

lemma scan_commission_missing:
  assumes "\<forall>p\<in>set ps. fs (os_path_join (repo_path self) [p]) = Missing"
  shows "scan_commission self fs ps acc = Inr acc"
  using assms by (induction ps arbitrary: acc) (simp_all del: os_path_join.simps)

lemma collect_issues_missing:
  assumes "list_all (\<lambda>bs. fs (os_path_join (repo_path self) bs) = Missing) probed_paths"
  shows "collect_issues self fs = Inr []"
proof -
  have all: "\<forall>bs\<in>set probed_paths. fs (os_path_join (repo_path self) bs) = Missing"
    using assms by (simp only: list_all_iff)
  have storage: "fs (os_path_join (repo_path self) [''server'', ''storage.ts'']) = Missing"
    using all by (simp add: probed_paths_def del: os_path_join.simps)
  have routes: "fs (os_path_join (repo_path self) [''server'', ''routes.ts'']) = Missing"
    using all by (simp add: probed_paths_def del: os_path_join.simps)
  have app: "fs (os_path_join (repo_path self) [''client'', ''src'', ''App.tsx'']) = Missing"
    using all by (simp add: probed_paths_def del: os_path_join.simps)
  have "\<forall>p\<in>set performance_files. [p] \<in> set probed_paths"
    by (simp add: probed_paths_def)
  then have dates: "\<forall>p\<in>set performance_files. fs (os_path_join (repo_path self) [p]) = Missing"
    using all by blast
  have "\<forall>p\<in>set files_to_check. [p] \<in> set probed_paths"
    by (simp add: probed_paths_def)
  then have comm: "\<forall>p\<in>set files_to_check. fs (os_path_join (repo_path self) [p]) = Missing"
    using all by blast
  show ?thesis
    by (simp add: collect_issues_def bind_err_def analyze_database_schema_errors_def
          analyze_date_inconsistencies_def analyze_client_deletion_errors_def
          analyze_ui_display_inconsistencies_def analyze_commission_system_removal_def
          scan_dates_missing[OF dates] scan_commission_missing[OF comm] storage routes app
          del: os_path_join.simps)
qed

lemma prioritize_issues_Nil: "prioritize_issues [] = Inr []"
  by (simp add: prioritize_issues_def sorted_by_priority_def sort_keys_def bind_err_def
        enumerate_eq_zip)

lemma generate_systematic_fixes_missing:
  assumes "list_all (\<lambda>bs. fs (os_path_join (repo_path self) bs) = Missing) probed_paths"
  shows "generate_systematic_fixes self fs = Inr []"
  by (simp add: generate_systematic_fixes_def collect_issues_missing[OF assms] bind_err_def
        prioritize_issues_Nil)

lemma report_of_fixes:
  assumes "generate_systematic_fixes self fs = Inr fixes"
  shows "create_implementation_report self fs now =
           Inr (report_header now (length fixes) @ concat (map render_fix fixes) @ report_footer)"
  by (simp add: create_implementation_report_def assms bind_err_def)

lemma main_of_report:
  assumes "create_implementation_report (init_analyzer ''.'') fs now = Inr report"
  shows "main fs now True = \<lparr>exit_code = 0, saved_report = Some report\<rparr>"
  by (simp add: main_def assms)

lemma main_not_writable: "main fs now False = \<lparr>exit_code = 1, saved_report = None\<rparr>"
  by (simp add: main_def split: sum.splits)

lemma elsewhere_missing:
  "list_all (\<lambda>bs. elsewhere_fs (os_path_join (repo_path (init_analyzer ''/srv/missing'')) bs)
                 = Missing) probed_paths"
  by (simp add: probed_paths_def performance_files_def files_to_check_def init_analyzer_def
        elsewhere_fs_def suffix_to_prefix)

lemma prioritize_sorted_again:
  assumes "prioritize_issues xs = Inr fixes"
  shows "prioritize_issues (map issue fixes) = Inr fixes"
proof -
  define ys where "ys = sort_key rank_of xs"
  have fx: "fixes = map make_fix (enumerate 1 ys)"
    and known: "\<forall>x\<in>set xs. type x \<in> set priority_order"
    using prioritize_issues_Inr[OF assms] by (simp_all add: ys_def)
  have iss: "map issue fixes = ys"
    unfolding fx by (rule map_issue_fixes)
  have "\<forall>x\<in>set ys. type x \<in> set priority_order"
    using known by (simp add: ys_def)
  then have run: "prioritize_issues ys = Inr (map make_fix (enumerate 1 (sort_key rank_of ys)))"
    by (rule prioritize_issues_known)
  have "sorted (map rank_of ys)"
    by (simp add: ys_def)
  then have "sort_key rank_of ys = ys"
    by (rule sort_key_id_if_sorted)
  then have step: "prioritize_issues ys = Inr (map make_fix (enumerate 1 ys))"
    using run by simp
  have "prioritize_issues (map issue fixes) = prioritize_issues ys"
    by (simp only: iss)
  also have "\<dots> = Inr (map make_fix (enumerate 1 ys))"
    by (rule step)
  also have "\<dots> = Inr fixes"
    by (simp only: fx)
  finally show ?thesis .
qed

lemma scan_dates_repo_path:
  "scan_dates (self\<lparr>issues := a, fixes' := b\<rparr>) fs ps acc = scan_dates self fs ps acc"
  by (induction ps arbitrary: acc) (simp_all del: os_path_join.simps split: fs_entry.splits)

lemma scan_commission_repo_path:
  "scan_commission (self\<lparr>issues := a, fixes' := b\<rparr>) fs ps acc =
   scan_commission self fs ps acc"
  by (induction ps arbitrary: acc) (simp_all del: os_path_join.simps split: fs_entry.splits)

lemma generate_systematic_fixes_repo_path:
  "generate_systematic_fixes (self\<lparr>issues := a, fixes' := b\<rparr>) fs =
   generate_systematic_fixes self fs"
  by (simp add: generate_systematic_fixes_def collect_issues_def
        analyze_database_schema_errors_def analyze_date_inconsistencies_def
        analyze_client_deletion_errors_def analyze_ui_display_inconsistencies_def
        analyze_commission_system_removal_def scan_dates_repo_path
        scan_commission_repo_path
        del: os_path_join.simps)

section \<open>Runs of the phase-2 analyzers on the concrete trees\<close>

lemma walk_two_large:
  "scan_walk two_large_tree (walk_client_src two_large_tree) =
     [(''client/src/a.tsx'', 20000), (''client/src/b.tsx'', 20000)]"
  by (simp add: two_large_tree_def path_under_def suffix_to_prefix)

lemma run_two_large:
  "analyze_bundle_size_optimization example_kb_text two_large_tree = Inr [two_large_finding]"
  by (simp add: analyze_bundle_size_optimization_def walk_two_large large_components_issue_def
        example_kb_text_def two_large_finding_def)
     (simp add: two_large_tree_def)

lemma scan_images_nothing:
  assumes "entries t = (\<lambda>p. Missing)"
  shows "scan_images t ps acc = Inr acc"
  by (induction ps arbitrary: acc) (simp_all add: assms)

lemma scan_error_handling_nothing:
  assumes "entries t = (\<lambda>p. Missing)"
  shows "scan_error_handling t ps acc = Inr acc"
  by (induction ps arbitrary: acc) (simp_all add: assms)

lemma collect_nothing:
  assumes "entries t = (\<lambda>p. Missing)"
  shows "collect_phase2_issues kb_text t =
           Inr (large_components_issue kb_text (scan_walk t (walk_client_src t)))"
  by (simp add: collect_phase2_issues_def bind_err_def
        analyze_dashboard_metrics_error_def analyze_image_lazy_loading_opportunities_def
        analyze_bundle_size_optimization_def
        analyze_error_handling_gaps_def analyze_performance_monitoring_gaps_def
        analyze_api_response_optimization_def scan_images_nothing[OF assms]
        scan_error_handling_nothing[OF assms] assms)

lemma collect_two_large:
  "collect_phase2_issues example_kb_text two_large_tree = Inr [two_large_finding]"
proof -
  have e: "entries two_large_tree = (\<lambda>p. Missing)"
    by (simp add: two_large_tree_def)
  have "large_components_issue example_kb_text
          (scan_walk two_large_tree (walk_client_src two_large_tree)) = [two_large_finding]"
    by (simp add: walk_two_large large_components_issue_def example_kb_text_def
          two_large_finding_def)
  then show ?thesis
    by (simp add: collect_nothing[OF e])
qed



lemma run_commission:
  "analyze_commission_system_removal (init_analyzer ''.'') commission_fs =
     Inr (map commission_issue files_to_check)"
  by code_simp




section \<open>A failing \<open>stat\<close> and a failing read\<close>


















section \<open>The loops over lists of paths\<close>


lemma scan_commission_eq:
  "scan_commission self fs ps acc =
     (if list_ex (\<lambda>p. fs (os_path_join (repo_path self) [p]) = Unreadable) ps
      then Inl ReadError
      else Inr (acc @ map commission_issue (filter (commission_match self fs) ps)))"
  by (induction ps arbitrary: acc)
     (simp_all add: commission_match_def del: os_path_join.simps split: fs_entry.splits)



section \<open>The types and severities the analyzers emit\<close>




























section \<open>One finding for each match, and the merged finding\<close>

lemma commission_shape:
  assumes "analyze_commission_system_removal self fs = Inr xs"
  shows "xs = map commission_issue (filter (commission_match self fs) files_to_check)"
  using assms unfolding analyze_commission_system_removal_def scan_commission_eq
  by (simp split: if_splits)

lemma map_filter_append:
  "List.map_filter f (xs @ ys) = List.map_filter f xs @ List.map_filter f ys"
  by (simp add: List.map_filter_def)

lemma scan_files_large:
  "scan_files t root names =
     List.map_filter (large_size t) (map (path_under root) (filter is_component names))"
  by (induction names)
     (simp_all add: is_component_def large_size_def map_filter_simps split: option.splits)

lemma scan_walk_large:
  "scan_walk t w =
     List.map_filter (large_size t)
       (concat (map (\<lambda>(root, names). map (path_under root) (filter is_component names)) w))"
  by (induction w) (auto simp: scan_files_large map_filter_append map_filter_simps)

lemma scan_walk_large_files: "scan_walk t (walk_client_src t) = large_files t"
  by (simp add: scan_walk_large large_files_def component_paths_def)

lemma large_components_issue_merged:
  "large_components_issue kb_text large_components =
     (if large_components = [] then []
      else [merged_finding kb_text (take 3 large_components)])"
  by (simp add: large_components_issue_def merged_finding_def)

lemma bundle_shape:
  assumes "analyze_bundle_size_optimization kb_text t = Inr ys"
  shows "ys = (if large_files t = [] then []
               else [merged_finding kb_text (take 3 (large_files t))]) @ app_findings t"
proof (cases "entries t ''client/src/App.tsx''")
  case Missing
  then show ?thesis
    using assms
    by (auto simp: analyze_bundle_size_optimization_def scan_walk_large_files
          large_components_issue_merged app_findings_def Let_def)
next
  case Unreadable
  then show ?thesis
    using assms by (simp add: analyze_bundle_size_optimization_def)
next
  case (File content)
  then show ?thesis
    using assms
    by (auto simp: analyze_bundle_size_optimization_def scan_walk_large_files
          large_components_issue_merged app_findings_def Let_def)
qed

lemma app_findings_file:
  "filter (\<lambda>y. p2_file y = ''Multiple large components'') (app_findings t) = []"
  by (simp add: app_findings_def no_code_splitting_issue_def split: fs_entry.splits)

lemma merged_count:
  assumes "analyze_bundle_size_optimization kb_text t = Inr ys"
  shows "length (filter (\<lambda>y. p2_file y = ''Multiple large components'') ys) =
           (if large_files t = [] then 0 else 1)"
  unfolding bundle_shape[OF assms]
  by (simp add: app_findings_file merged_finding_def)

lemma large_files_four: "large_files four_large_tree = four_large_files"
  by (simp add: large_files_def component_paths_def four_large_tree_def is_component_def
        path_under_def large_size_def map_filter_simps suffix_to_prefix four_large_files_def)

lemma run_four_large:
  "analyze_bundle_size_optimization example_kb_text four_large_tree = Inr [four_large_finding]"
proof -
  have w: "scan_walk four_large_tree (walk_client_src four_large_tree) = four_large_files"
    by (simp only: scan_walk_large_files large_files_four)
  have e: "entries four_large_tree ''client/src/App.tsx'' = File ''lazy(''"
    by (simp add: four_large_tree_def)
  have "large_components_issue example_kb_text four_large_files = [four_large_finding]"
    by (simp add: large_components_issue_def four_large_files_def example_kb_text_def
          four_large_finding_def)
  then show ?thesis
    by (simp add: analyze_bundle_size_optimization_def w e)
qed

section \<open>The claims\<close>

subsection \<open>Ordering of the fixes\<close>

text \<open>
  Claim C1, as the code has it. \<open>generate_systematic_fixes\<close> sorts by one key only, the
  position of the issue's type in \<open>priority_order\<close>. For every list of issues that it
  prioritizes: when the rank of \<open>A\<close> is lower than the rank of \<open>B\<close>, \<open>A\<close> has the
  lower priority number; the issues of any one rank stay in the order in which the
  analyzers emitted them, also when the whole report is of one rank; and the issues of
  the fixes are, in this order, the stable sort of the input by rank. An issue of this
  script has no severity and no rule id, and the file path takes no part in the order.
\<close>

theorem type_rank_orders_priority:
  assumes "prioritize_issues xs = Inr fixes"
  shows "(\<forall>A\<in>set fixes. \<forall>B\<in>set fixes.
            rank_of (issue A) < rank_of (issue B) \<longrightarrow> priority A < priority B) \<and>
         (\<forall>k. filter (\<lambda>x. rank_of x = k) (map issue fixes) =
              filter (\<lambda>x. rank_of x = k) xs) \<and>
         map issue fixes = sort_key rank_of xs"
proof (intro conjI ballI impI allI)
  define ys where "ys = sort_key rank_of xs"
  have fx: "fixes = map make_fix (enumerate 1 ys)"
    using prioritize_issues_Inr(1)[OF assms] by (simp add: ys_def)
  have sorted: "sorted (map rank_of ys)"
    by (simp add: ys_def)
  have len: "length fixes = length ys"
    by (simp add: fx)
  show "priority A < priority B"
    if A: "A \<in> set fixes" and B: "B \<in> set fixes"
      and less: "rank_of (issue A) < rank_of (issue B)" for A B
  proof -
    have "\<exists>i<length fixes. fixes ! i = A"
      using A by (simp only: in_set_conv_nth)
    then obtain i where i: "i < length ys" "A = fixes ! i"
      using len by auto
    have "\<exists>j<length fixes. fixes ! j = B"
      using B by (simp only: in_set_conv_nth)
    then obtain j where j: "j < length ys" "B = fixes ! j"
      using len by auto
    have pA: "priority A = 1 + i" "issue A = ys ! i"
      using i(1) by (simp_all add: i(2) fx make_fix_def nth_enumerate_eq)
    have pB: "priority B = 1 + j" "issue B = ys ! j"
      using j(1) by (simp_all add: j(2) fx make_fix_def nth_enumerate_eq)
    have "\<not> j \<le> i"
    proof
      assume "j \<le> i"
      then have "map rank_of ys ! j \<le> map rank_of ys ! i"
        using sorted i(1) by (simp add: sorted_iff_nth_mono del: nth_map)
      then show False using less i(1) j(1) pA pB by simp
    qed
    then show ?thesis using pA pB by simp
  qed
  show "filter (\<lambda>x. rank_of x = k) (map issue fixes) = filter (\<lambda>x. rank_of x = k) xs" for k
    unfolding fx map_issue_fixes ys_def by (rule sort_key_stable)
  show "map issue fixes = sort_key rank_of xs"
    unfolding fx map_issue_fixes ys_def ..
qed

text \<open>
  The theorem at the sample list: the audit issue comes before the commission issue, and
  the two date issues, of one rank, stay as they were emitted, \<open>b.tsx\<close> before
  \<open>a.tsx\<close>.
\<close>

theorem type_rank_orders_priority_witness:
  "prioritize_issues sample_issues = Inr sample_fixes \<and>
   sample_fixes ! 0 \<in> set sample_fixes \<and> sample_fixes ! 3 \<in> set sample_fixes \<and>
   rank_of (issue (sample_fixes ! 0)) < rank_of (issue (sample_fixes ! 3)) \<and>
   priority (sample_fixes ! 0) < priority (sample_fixes ! 3) \<and>
   filter (\<lambda>x. rank_of x = 3) (map issue sample_fixes) =
     [date_issue ''b.tsx'', date_issue ''a.tsx'']"
proof -
  have a: "sample_fixes ! 0 \<in> set sample_fixes" by (simp add: sample_fixes_def)
  have b: "sample_fixes ! 3 \<in> set sample_fixes" by (simp add: sample_fixes_def)
  have r: "rank_of (issue (sample_fixes ! 0)) < rank_of (issue (sample_fixes ! 3))"
    by code_simp
  have f: "filter (\<lambda>x. rank_of x = 3) sample_issues =
             [date_issue ''b.tsx'', date_issue ''a.tsx'']"
    by code_simp
  have order: "\<forall>A\<in>set sample_fixes. \<forall>B\<in>set sample_fixes.
            rank_of (issue A) < rank_of (issue B) \<longrightarrow> priority A < priority B"
    and stable: "\<forall>k. filter (\<lambda>x. rank_of x = k) (map issue sample_fixes) =
              filter (\<lambda>x. rank_of x = k) sample_issues"
    using type_rank_orders_priority[OF run_sample] by blast+
  have "priority (sample_fixes ! 0) < priority (sample_fixes ! 3)"
    using order a b r by blast
  moreover have "filter (\<lambda>x. rank_of x = 3) (map issue sample_fixes) =
     [date_issue ''b.tsx'', date_issue ''a.tsx'']"
    using stable f by simp
  ultimately show ?thesis
    using run_sample a b r by blast
qed

text \<open>
  Claim C1 as stated fails. In \<open>october_fs\<close> both date issues have the same type;
  \<open>performance-simple.tsx\<close> is the smaller path, yet it gets priority 3 and
  \<open>performance.tsx\<close> priority 2, the order of \<open>performance_files\<close>.
\<close>

theorem file_path_does_not_break_ties:
  "\<not> (\<forall>self fs fixes A B.
         generate_systematic_fixes self fs = Inr fixes \<longrightarrow>
         A \<in> set fixes \<longrightarrow> B \<in> set fixes \<longrightarrow>
         rank_of (issue A) = rank_of (issue B) \<longrightarrow>
         file' (issue A) < file' (issue B) \<longrightarrow>
         priority A < priority B)"
proof
  assume claim: "\<forall>self fs fixes A B.
         generate_systematic_fixes self fs = Inr fixes \<longrightarrow>
         A \<in> set fixes \<longrightarrow> B \<in> set fixes \<longrightarrow>
         rank_of (issue A) = rank_of (issue B) \<longrightarrow>
         file' (issue A) < file' (issue B) \<longrightarrow>
         priority A < priority B"
  have a: "october_fixes ! 2 \<in> set october_fixes" by (simp add: october_fixes_def)
  have b: "october_fixes ! 1 \<in> set october_fixes" by (simp add: october_fixes_def)
  have r: "rank_of (issue (october_fixes ! 2)) = rank_of (issue (october_fixes ! 1))"
    by code_simp
  have f: "file' (issue (october_fixes ! 2)) < file' (issue (october_fixes ! 1))"
    by (simp add: october_fixes_def date_issue_def)
  have "priority (october_fixes ! 2) < priority (october_fixes ! 1)"
    using claim run_october a b r f by blast
  then show False by (simp add: october_fixes_def)
qed

subsection \<open>Priority numbers\<close>

text \<open>
  Claim C7. The priority numbers that \<open>enumerate(sorted_issues, 1)\<close> assigns are
  1, 2, ..., N in this order, for the N issues that went in: dense, starting at 1,
  without gaps or repeats.
\<close>

theorem priority_numbers_dense:
  assumes "prioritize_issues xs = Inr fixes"
  shows "length fixes = length xs \<and> map priority fixes = [1..<Suc (length fixes)]"
proof -
  have fx: "fixes = map make_fix (enumerate 1 (sort_key rank_of xs))"
    using prioritize_issues_Inr(1)[OF assms] .
  have len: "length fixes = length xs"
    by (simp add: fx)
  have "map priority fixes = [1..<1 + length (sort_key rank_of xs)]"
    unfolding fx by (rule map_priority_fixes)
  then show ?thesis using len by simp
qed

theorem priority_numbers_dense_witness:
  "prioritize_issues sample_issues = Inr sample_fixes \<and>
   length sample_fixes = length sample_issues \<and>
   map priority sample_fixes = [1, 2, 3, 4]"
proof -
  have l: "Suc (length sample_fixes) = 5"
    by (simp add: sample_fixes_def)
  have u: "[1..<5] = [1, 2, 3, 4::nat]"
    by code_simp
  have "length sample_fixes = length sample_issues"
    and "map priority sample_fixes = [1..<Suc (length sample_fixes)]"
    using priority_numbers_dense[OF run_sample] by blast+
  then show ?thesis
    using run_sample unfolding l u by blast
qed

subsection \<open>Implementation steps\<close>

text \<open>
  Claim C8. The steps of every fix are those of \<open>generate_fix_steps\<close> for its issue;
  the chain of comparisons in \<open>generate_fix_steps\<close> is a lookup of the category in
  \<open>step_template_table\<close>, and a category that is not in the table gets the single
  step \<open>Manual analysis required\<close>.
\<close>

theorem steps_dispatch_on_category:
  assumes "prioritize_issues xs = Inr fixes" and "f \<in> set fixes"
  shows "implementation_steps f =
           (case map_of step_template_table (category (issue f)) of
              Some steps \<Rightarrow> steps
            | None \<Rightarrow> [''Manual analysis required'']) \<and>
         (category (issue f) \<notin> fst ` set step_template_table \<longrightarrow>
            implementation_steps f = [''Manual analysis required''])"
proof -
  have fx: "fixes = map make_fix (enumerate 1 (sort_key rank_of xs))"
    using prioritize_issues_Inr(1)[OF assms(1)] .
  have "\<exists>p. f = make_fix p"
    using assms(2) unfolding fx by auto
  then have steps: "implementation_steps f = generate_fix_steps (issue f)"
    by (auto simp: make_fix_def)
  have lookup: "generate_fix_steps x =
           (case map_of step_template_table (category x) of
              Some steps \<Rightarrow> steps
            | None \<Rightarrow> [''Manual analysis required''])" for x
    by (simp add: generate_fix_steps_def step_template_table_def)
  have fallback: "generate_fix_steps x = [''Manual analysis required'']"
    if "category x \<notin> fst ` set step_template_table" for x
    using that by (simp add: generate_fix_steps_def step_template_table_def)
  show ?thesis
    using steps lookup[of "issue f"] fallback[of "issue f"] by simp
qed

theorem steps_dispatch_on_category_witness:
  "prioritize_issues sample_issues = Inr sample_fixes \<and>
   sample_fixes ! 0 \<in> set sample_fixes \<and>
   category (issue (sample_fixes ! 0)) \<notin> fst ` set step_template_table \<and>
   implementation_steps (sample_fixes ! 0) = [''Manual analysis required'']"
proof -
  have a: "sample_fixes ! 0 \<in> set sample_fixes" by (simp add: sample_fixes_def)
  have c: "category (issue (sample_fixes ! 0)) \<notin> fst ` set step_template_table"
    by (simp add: sample_fixes_def audit_issue_def step_template_table_def)
  show ?thesis
    using steps_dispatch_on_category[OF run_sample a] run_sample a c by blast
qed

subsection \<open>What the sort looks at\<close>

text \<open>
  Claim C10. The sort looks at the type of an issue and at nothing else. The issues of
  one type come out in the order in which they went in (the sort is stable), and a
  change \<open>g\<close> of the issues that leaves every type alone, whatever it does to file
  paths and titles, changes neither the order nor the priority numbers: the fixes of
  the changed list are those of the original list, changed by \<open>g\<close>.
\<close>

theorem sort_compares_type_only:
  assumes "prioritize_issues xs = Inr fixes"
      and "\<forall>x. type (g x) = type x"
  shows "filter (\<lambda>x. type x = t) (map issue fixes) = filter (\<lambda>x. type x = t) xs \<and>
         (\<exists>fixes2. prioritize_issues (map g xs) = Inr fixes2 \<and>
            map issue fixes2 = map g (map issue fixes) \<and>
            map priority fixes2 = map priority fixes)"
proof (intro conjI exI)
  have fx: "fixes = map make_fix (enumerate 1 (sort_key rank_of xs))"
    and known: "\<forall>x\<in>set xs. type x \<in> set priority_order"
    using prioritize_issues_Inr[OF assms(1)] by simp_all
  have iss: "map issue fixes = sort_key rank_of xs"
    unfolding fx by (rule map_issue_fixes)
  show "filter (\<lambda>x. type x = t) (map issue fixes) = filter (\<lambda>x. type x = t) xs"
    unfolding iss using known by (rule stable_by_type)
  show "prioritize_issues (map g xs) =
          Inr (map make_fix (enumerate 1 (map g (sort_key rank_of xs))))"
    using known assms(2) by (rule equivariant)
  show "map issue (map make_fix (enumerate 1 (map g (sort_key rank_of xs)))) =
          map g (map issue fixes)"
    unfolding iss by (rule map_issue_fixes)
  show "map priority (map make_fix (enumerate 1 (map g (sort_key rank_of xs)))) =
          map priority fixes"
    unfolding fx map_priority_fixes by simp
qed

text \<open>
  The theorem at the sample list: \<open>b.tsx\<close> stays before \<open>a.tsx\<close>, and moving every
  file changes nothing in the order.
\<close>

theorem sort_compares_type_only_witness:
  "prioritize_issues sample_issues = Inr sample_fixes \<and>
   (\<forall>x. type (retitle x) = type x) \<and>
   filter (\<lambda>x. type x = ''data_accuracy'') (map issue sample_fixes) =
     [date_issue ''b.tsx'', date_issue ''a.tsx''] \<and>
   (\<exists>fixes2. prioritize_issues (map retitle sample_issues) = Inr fixes2 \<and>
      map issue fixes2 = map retitle (map issue sample_fixes) \<and>
      map priority fixes2 = map priority sample_fixes)"
proof -
  have h: "\<forall>x. type (retitle x) = type x"
    by (simp add: retitle_type)
  have f: "filter (\<lambda>x. type x = ''data_accuracy'') sample_issues =
             [date_issue ''b.tsx'', date_issue ''a.tsx'']"
    by code_simp
  show ?thesis
    using sort_compares_type_only[OF run_sample h, of "''data_accuracy''"] run_sample h
    unfolding f by blast
qed

subsection \<open>Running the prioritization again\<close>

text \<open>
  Claim C9. Prioritizing the issues of an already prioritized list gives the same fixes
  with the same priority numbers. The result of \<open>generate_systematic_fixes\<close> does not
  depend on the attributes \<open>issues\<close> and \<open>fixes\<close> of the analyzer object, whatever an
  earlier run might have left there: the method reads \<open>repo_path\<close> only and builds its
  lists afresh. No method of the class assigns to an attribute, which is why the model's
  functions return no new object.
\<close>

theorem prioritize_idempotent_without_state:
  assumes "prioritize_issues xs = Inr fixes"
  shows "prioritize_issues (map issue fixes) = Inr fixes \<and>
         generate_systematic_fixes (self\<lparr>issues := old_issues, fixes' := old_fixes\<rparr>) fs =
           generate_systematic_fixes self fs"
  using prioritize_sorted_again[OF assms] generate_systematic_fixes_repo_path
  by simp

theorem prioritize_idempotent_without_state_witness:
  "prioritize_issues sample_issues = Inr sample_fixes \<and>
   prioritize_issues (map issue sample_fixes) = Inr sample_fixes \<and>
   generate_systematic_fixes
     ((init_analyzer ''.'')\<lparr>issues := sample_issues, fixes' := sample_fixes\<rparr>) october_fs =
     Inr october_fixes"
  using prioritize_idempotent_without_state[OF run_sample,
      where self = "init_analyzer ''.''" and old_issues = sample_issues
        and old_fixes = sample_fixes and fs = october_fs]
    run_sample run_october
  by simp

subsection \<open>Two runs over the same files\<close>

text \<open>
  Claim C5, as the code has it. The report holds the reading of the clock in its
  \<open>Generated\<close> line. Two runs over the same file system give the same report exactly
  when the clock reads the same, or when both fail with the same exception; and the
  reports of a file system differ in nothing but that reading: one text stands before
  it and one after it, whatever the clock says.
\<close>

theorem reports_differ_in_clock_only:
  "(create_implementation_report self fs t1 = create_implementation_report self fs t2) =
     (t1 = t2 \<or> (\<exists>e. generate_systematic_fixes self fs = Inl e)) \<and>
   ((\<exists>e. \<forall>now. create_implementation_report self fs now = Inl e) \<or>
    (\<exists>before after. \<forall>now.
        create_implementation_report self fs now = Inr (before @ now @ after)))"
proof
  show "(create_implementation_report self fs t1 = create_implementation_report self fs t2) =
     (t1 = t2 \<or> (\<exists>e. generate_systematic_fixes self fs = Inl e))"
    by (rule report_eq_iff)
  show "(\<exists>e. \<forall>now. create_implementation_report self fs now = Inl e) \<or>
    (\<exists>before after. \<forall>now.
        create_implementation_report self fs now = Inr (before @ now @ after))"
  proof (cases "generate_systematic_fixes self fs")
    case (Inl e)
    then have "\<forall>now. create_implementation_report self fs now = Inl e"
      by (simp add: report_shape)
    then show ?thesis by blast
  next
    case (Inr fxs)
    then have "\<forall>now. create_implementation_report self fs now =
                 Inr (report_before_time @ now @ report_after_time fxs)"
      by (simp add: report_shape)
    then show ?thesis by blast
  qed
qed

text \<open>
  Claim C5 as stated fails: the same files, read one second apart, give two different
  reports.
\<close>

theorem report_changes_with_clock:
  "create_implementation_report (init_analyzer ''.'') october_fs ''2025-06-01 10:00:00'' \<noteq>
   create_implementation_report (init_analyzer ''.'') october_fs ''2025-06-01 10:00:01''"
  by (simp add: report_eq_iff run_october)

subsection \<open>A missing root path\<close>

text \<open>
  Claim C4, as the code has it. There is no check of the root path. When the root path
  is missing or cannot be searched, so that none of the files the analyzers look for
  exists under it, no analyzer emits an issue and the run yields a report with zero
  issues, not an input error. A run whose scan completes always yields a report, and
  \<open>main\<close> then ends with exit code 0 and the report saved, however many issues there
  are, when the report file can be written; when it cannot be written, \<open>main\<close> ends
  with exit code 1.
\<close>

theorem missing_root_yields_empty_report:
  assumes "list_all (\<lambda>bs. fs (os_path_join (repo_path self) bs) = Missing) probed_paths"
      and "generate_systematic_fixes self2 fs2 = Inr fixes"
      and "create_implementation_report (init_analyzer ''.'') fs3 now = Inr report"
  shows "create_implementation_report self fs now =
           Inr (report_header now 0 @ report_footer) \<and>
         create_implementation_report self2 fs2 now =
           Inr (report_header now (length fixes) @ concat (map render_fix fixes) @
                report_footer) \<and>
         main fs3 now True = \<lparr>exit_code = 0, saved_report = Some report\<rparr> \<and>
         main fs3 now False = \<lparr>exit_code = 1, saved_report = None\<rparr>"
  using report_of_fixes[OF generate_systematic_fixes_missing[OF assms(1)], of now]
    report_of_fixes[OF assms(2), of now] main_of_report[OF assms(3)]
    main_not_writable[of fs3 now]
  by simp

text \<open>
  The theorem at a root path \<open>/srv/missing\<close> that does not exist, beside a repository
  at \<open>/srv/app\<close>, and at the run in the current directory that finds three issues.
\<close>

theorem missing_root_yields_empty_report_witness:
  "list_all (\<lambda>bs. elsewhere_fs (os_path_join (repo_path (init_analyzer ''/srv/missing'')) bs)
                 = Missing) probed_paths \<and>
   generate_systematic_fixes (init_analyzer ''.'') october_fs = Inr october_fixes \<and>
   create_implementation_report (init_analyzer ''.'') october_fs ''2025-06-01 10:00:00'' =
     Inr (report_header ''2025-06-01 10:00:00'' 3 @ concat (map render_fix october_fixes) @
          report_footer) \<and>
   create_implementation_report (init_analyzer ''/srv/missing'') elsewhere_fs
       ''2025-06-01 10:00:00'' =
     Inr (report_header ''2025-06-01 10:00:00'' 0 @ report_footer) \<and>
   main october_fs ''2025-06-01 10:00:00'' True =
     \<lparr>exit_code = 0,
      saved_report =
        Some (report_header ''2025-06-01 10:00:00'' 3 @ concat (map render_fix october_fixes) @
              report_footer)\<rparr>"
proof -
  have l: "length october_fixes = 3"
    by (simp add: october_fixes_def)
  have r: "create_implementation_report (init_analyzer ''.'') october_fs ''2025-06-01 10:00:00'' =
     Inr (report_header ''2025-06-01 10:00:00'' 3 @ concat (map render_fix october_fixes) @
          report_footer)"
    using report_of_fixes[OF run_october, of "''2025-06-01 10:00:00''"] by (simp only: l)
  show ?thesis
    using missing_root_yields_empty_report[OF elsewhere_missing run_october r]
      elsewhere_missing run_october r
    by (simp only: l simp_thms)
qed

text \<open>
  Claim C4 as stated fails: an analyzer for the root path \<open>/srv/missing\<close>, which does
  not exist, does not fail with an input error before scanning; it scans, finds nothing
  and produces a report.
\<close>

theorem missing_root_is_not_an_error:
  "create_implementation_report (init_analyzer ''/srv/missing'') elsewhere_fs
       ''2025-06-01 10:00:00'' =
     Inr (report_header ''2025-06-01 10:00:00'' 0 @ report_footer)"
  by (simp add: report_of_fixes[OF generate_systematic_fixes_missing[OF elsewhere_missing]])

subsection \<open>Exceptions during the scan\<close>




subsection \<open>Types and severities of the findings\<close>




subsection \<open>How many findings\<close>

text \<open>
  Claim C6, as the code has it. \<open>analyze_commission_system_removal\<close> gives one finding
  for each file of \<open>files_to_check\<close> that exists, is read and mentions commission, in
  the order of the list: four when all four match, none when none does.
  \<open>analyze_bundle_size_optimization\<close> merges its matches. The files of the walk that
  are components, whose \<open>stat\<close> succeeds and whose size is over 15000 bytes make one
  finding together, which names the first three of them, and none when there is no
  such file; after it comes what the check of \<open>App.tsx\<close> finds.
\<close>

theorem one_finding_per_match_large_files_merged:
  assumes "analyze_commission_system_removal self fs = Inr xs"
      and "analyze_bundle_size_optimization kb_text t = Inr ys"
  shows "xs = map commission_issue (filter (commission_match self fs) files_to_check) \<and>
         length xs = length (filter (commission_match self fs) files_to_check) \<and>
         ys = (if large_files t = [] then []
               else [merged_finding kb_text (take 3 (large_files t))]) @ app_findings t \<and>
         length (filter (\<lambda>y. p2_file y = ''Multiple large components'') ys) =
           (if large_files t = [] then 0 else 1)"
  using commission_shape[OF assms(1)] bundle_shape[OF assms(2)] merged_count[OF assms(2)]
  by simp

text \<open>
  The theorem at the file system in which all four files mention commission, and at the
  tree with four large components: four findings there; one finding here, for four large
  files, which names three of them.
\<close>

theorem one_finding_per_match_large_files_merged_witness:
  "analyze_commission_system_removal (init_analyzer ''.'') commission_fs =
     Inr (map commission_issue files_to_check) \<and>
   analyze_bundle_size_optimization example_kb_text four_large_tree =
     Inr [four_large_finding] \<and>
   length (filter (commission_match (init_analyzer ''.'') commission_fs) files_to_check) = 4 \<and>
   length (large_files four_large_tree) = 4 \<and>
   [four_large_finding] =
     [merged_finding example_kb_text (take 3 (large_files four_large_tree))] @
     app_findings four_large_tree \<and>
   length (filter (\<lambda>y. p2_file y = ''Multiple large components'') [four_large_finding]) = 1"
proof -
  have l: "length (map commission_issue files_to_check) = 4"
    by (simp add: files_to_check_def)
  have n: "length (large_files four_large_tree) = 4"
    by (simp add: large_files_four four_large_files_def)
  then have ne: "large_files four_large_tree \<noteq> []"
    by auto
  show ?thesis
    using one_finding_per_match_large_files_merged[OF run_commission run_four_large]
      run_commission run_four_large l n ne
    by simp
qed

text \<open>
  Claim C6 as stated fails: two files match the one rule on large components, and the
  analyzer returns one finding for the two.
\<close>

theorem two_large_files_one_finding:
  "length (scan_walk two_large_tree (walk_client_src two_large_tree)) = 2 \<and>
   analyze_bundle_size_optimization example_kb_text two_large_tree = Inr [two_large_finding]"
  using walk_two_large run_two_large by simp


end
